theory Spec2Isabelle
  imports Complex_Main
begin

section \<open>Request model (types.ts)\<close>

text \<open>
  The string-literal union types of \<^verbatim>\<open>types.ts\<close> become datatypes; the
  functions \<open>mode_str\<close>, \<open>profile_str\<close> and \<open>version_str\<close> give the
  string each member is at run time.
\<close>

datatype ValidateMode = Epub | Opf | Xhtml | Svg | Nav | Mo

datatype ValidateProfile = ProfDefault | ProfDict | ProfEdupub | ProfIdx | ProfPreview

datatype EpubVersion = V2_0 | V3_0

fun mode_str :: "ValidateMode \<Rightarrow> string" where
  "mode_str Epub = ''epub''"
| "mode_str Opf = ''opf''"
| "mode_str Xhtml = ''xhtml''"
| "mode_str Svg = ''svg''"
| "mode_str Nav = ''nav''"
| "mode_str Mo = ''mo''"

fun profile_str :: "ValidateProfile \<Rightarrow> string" where
  "profile_str ProfDefault = ''default''"
| "profile_str ProfDict = ''dict''"
| "profile_str ProfEdupub = ''edupub''"
| "profile_str ProfIdx = ''idx''"
| "profile_str ProfPreview = ''preview''"

fun version_str :: "EpubVersion \<Rightarrow> string" where
  "version_str V2_0 = ''2.0''"
| "version_str V3_0 = ''3.0''"

text \<open>\<^verbatim>\<open>ValidateOptions\<close>: \<open>path\<close> is required, the other fields are optional.\<close>

record ValidateOptions =
  path :: string
  mode :: "ValidateMode option"
  profile :: "ValidateProfile option"
  version :: "EpubVersion option"

section \<open>JavaScript values\<close>

text \<open>
  An optional string used as a condition is true when it is defined and not empty
  (\<^verbatim>\<open>undefined\<close>, \<^verbatim>\<open>null\<close> and \<^verbatim>\<open>""\<close> are falsy).
\<close>

fun truthy :: "string option \<Rightarrow> bool" where
  "truthy None = False"
| "truthy (Some s) = (s \<noteq> [])"

text \<open>
  Thrown values. \<open>Error\<close> is an error the repository's code constructs with
  \<^verbatim>\<open>new Error(message)\<close>; \<open>SyntaxError\<close> is what \<^verbatim>\<open>JSON.parse\<close> throws,
  \<open>SystemError\<close> what a file-system call throws or rejects with, and \<open>TypeError\<close>
  what a failed \<^verbatim>\<open>fetch\<close>, a property read on \<^verbatim>\<open>null\<close> or a call of
  something that is no function throws.
\<close>

datatype js_error = Error string | SyntaxError string | SystemError string | TypeError string

text \<open>A promise is pending (\<open>None\<close>) or settled; the first settlement stands.\<close>

datatype 'a settled = Resolved 'a | Rejected js_error

definition settle :: "'a settled option \<Rightarrow> 'a settled \<Rightarrow> 'a settled option" where
  "settle p v = (case p of None \<Rightarrow> Some v | Some w \<Rightarrow> Some w)"

text \<open>\<^verbatim>\<open>Array.prototype.join\<close> on an array of strings.\<close>

fun array_join :: "string \<Rightarrow> string list \<Rightarrow> string" where
  "array_join sep [] = []"
| "array_join sep [x] = x"
| "array_join sep (x # y # r) = x @ sep @ array_join sep (y # r)"

text \<open>
  A number in a template literal: decimal digits, with a minus sign when negative;
  \<^verbatim>\<open>null\<close> prints as \<^verbatim>\<open>null\<close>.
\<close>

fun digits :: "nat \<Rightarrow> string" where
  "digits n =
     (if n < 10 then [''0123456789'' ! n]
      else digits (n div 10) @ [''0123456789'' ! (n mod 10)])"

declare digits.simps [simp del]

definition show_int :: "int \<Rightarrow> string" where
  "show_int i = (if i < 0 then ''-'' @ digits (nat (- i)) else digits (nat i))"

fun show_code :: "int option \<Rightarrow> string" where
  "show_code None = ''null''"
| "show_code (Some i) = show_int i"

text \<open>
  A file that is read as JSON, as the code observes it: it does not exist; it exists but
  reading it throws; it is read but \<^verbatim>\<open>JSON.parse\<close> throws on its text; or its text
  parses to a document.
\<close>

datatype 'doc json_file = NoFile | Unreadable js_error | Malformed js_error | Holds 'doc

fun file_exists :: "'doc json_file \<Rightarrow> bool" where
  "file_exists NoFile = False"
| "file_exists _ = True"

section \<open>getJarPath (runner.ts)\<close>

text \<open>
  What \<open>getJarPath\<close> reads from its surroundings: the environment variable, the
  directory of the module, the working directory, the file system and the two functions
  of the \<^verbatim>\<open>path\<close> module.
\<close>

record Env =
  EPUBCHECK_JAR_PATH :: "string option"
  module_dirname :: string
  cwd :: string
  existsSync :: "string \<Rightarrow> bool"
  path_join :: "string list \<Rightarrow> string"
  path_dirname :: "string \<Rightarrow> string"

definition possiblePaths :: "Env \<Rightarrow> string list" where
  "possiblePaths E =
     [path_join E [module_dirname E, ''..'', ''bin'', ''epubcheck.jar''],
      path_join E [module_dirname E, ''bin'', ''epubcheck.jar''],
      path_join E [cwd E, ''bin'', ''epubcheck.jar'']]"

text \<open>The \<^verbatim>\<open>for\<close> loop: the first path of the list that exists.\<close>

fun first_existing :: "(string \<Rightarrow> bool) \<Rightarrow> string list \<Rightarrow> string option" where
  "first_existing ex [] = None"
| "first_existing ex (p # ps) = (if ex p then Some p else first_existing ex ps)"

definition not_found_message :: "string list \<Rightarrow> string" where
  "not_found_message ps =
     ''EPUBCheck JAR not found. Searched in: '' @ array_join '', '' ps @
     ''. Set EPUBCHECK_JAR_PATH environment variable or ensure bin/epubcheck.jar exists.''"

definition getJarPath :: "Env \<Rightarrow> js_error + string" where
  "getJarPath E =
     (if truthy (EPUBCHECK_JAR_PATH E) then Inr (the (EPUBCHECK_JAR_PATH E))
      else case first_existing (existsSync E) (possiblePaths E) of
             Some p \<Rightarrow> Inr p
           | None \<Rightarrow> Inl (Error (not_found_message (possiblePaths E))))"

text \<open>
  The search as the specification words it, for comparison: the override, when set, is
  the first candidate of one ordered list, the first candidate that exists is returned,
  and the error lists every candidate.
\<close>

definition spec_candidates :: "Env \<Rightarrow> string list" where
  "spec_candidates E =
     (if truthy (EPUBCHECK_JAR_PATH E) then [the (EPUBCHECK_JAR_PATH E)] else [])
       @ possiblePaths E"

definition spec_resolveExecutablePath :: "Env \<Rightarrow> js_error + string" where
  "spec_resolveExecutablePath E =
     (case first_existing (existsSync E) (spec_candidates E) of
        Some p \<Rightarrow> Inr p
      | None \<Rightarrow> Inl (Error (not_found_message (spec_candidates E))))"

section \<open>buildArgs (runner.ts)\<close>

text \<open>
  Each \<^verbatim>\<open>args.push(...)\<close> appends to the array built so far; the steps are kept
  in the order of the source.
\<close>

definition buildArgs :: "ValidateOptions \<Rightarrow> string \<Rightarrow> string list" where
  "buildArgs options jsonOutputPath =
     (let m = map_option mode_str (mode options);
          p = map_option profile_str (profile options);
          v = map_option version_str (version options);
          args0 = [];
          args1 = args0 @ [''--json'', jsonOutputPath];
          args2 = (if truthy m \<and> m \<noteq> Some ''epub''
                   then args1 @ [''--mode'', the m] else args1);
          args3 = (if truthy p \<and> p \<noteq> Some ''default''
                   then args2 @ [''--profile'', the p] else args2);
          args4 = (if truthy v \<and> truthy m \<and> m \<noteq> Some ''epub''
                   then args3 @ [''-v'', the v] else args3)
      in args4 @ [path options])"

text \<open>
  Reading an argument vector: the part between the two leading elements and the final
  one, and the element that follows the first occurrence of a flag.
\<close>

definition flag_section :: "string list \<Rightarrow> string list" where
  "flag_section args = butlast (drop 2 args)"

fun flag_value :: "string \<Rightarrow> string list \<Rightarrow> string option" where
  "flag_value f (x # y # r) = (if x = f then Some y else flag_value f (y # r))"
| "flag_value f _ = None"

definition default_mode :: "ValidateMode option \<Rightarrow> bool" where
  "default_mode m = (m = None \<or> m = Some Epub)"

definition default_profile :: "ValidateProfile option \<Rightarrow> bool" where
  "default_profile p = (p = None \<or> p = Some ProfDefault)"

text \<open>
  The arguments each of the three optional steps contributes, written from the request
  alone; \<open>buildArgs_shape\<close> below relates them to \<open>buildArgs\<close>.
\<close>

definition mode_args :: "ValidateMode option \<Rightarrow> string list" where
  "mode_args m = (if default_mode m then [] else [''--mode'', mode_str (the m)])"

definition profile_args :: "ValidateProfile option \<Rightarrow> string list" where
  "profile_args p = (if default_profile p then [] else [''--profile'', profile_str (the p)])"

definition version_args :: "ValidateMode option \<Rightarrow> EpubVersion option \<Rightarrow> string list" where
  "version_args m v =
     (if v = None \<or> default_mode m then [] else [''-v'', version_str (the v)])"

section \<open>runEpubCheck (runner.ts)\<close>

text \<open>
  The events of the spawned process, in the order the handlers see them: a chunk on
  standard error, \<^verbatim>\<open>close\<close> with the exit code (\<^verbatim>\<open>null\<close> when a signal
  ended the process), and \<^verbatim>\<open>error\<close> with the message of the native error.
\<close>

datatype proc_event = StderrData string | Close "int option" | ProcError string

text \<open>
  What one call meets: the temporary directory, the identifier drawn, the events of the
  process, the output file as the \<^verbatim>\<open>close\<close> handler finds it, and whether
  \<^verbatim>\<open>unlink\<close> succeeds.
\<close>

record 'doc Run =
  tmpdir :: string
  randomUUID :: string
  events :: "proc_event list"
  artifact :: "'doc json_file"
  unlink_ok :: bool

text \<open>
  The state of the promise's executor: the text collected from standard error, the
  promise, and the output file.
\<close>

record 'doc Invocation =
  stderr :: string
  promise :: "'doc settled option"
  output_file :: "'doc json_file"

definition no_output_message :: "string \<Rightarrow> int option \<Rightarrow> string" where
  "no_output_message err code =
     ''EPUBCheck failed to produce output: '' @
       (if err \<noteq> [] then err else ''exit code '' @ show_code code)"

text \<open>
  The \<^verbatim>\<open>close\<close> handler. \<^verbatim>\<open>readFile\<close> and \<^verbatim>\<open>JSON.parse\<close> throw
  inside the \<^verbatim>\<open>try\<close>, so their errors reject the promise; \<^verbatim>\<open>unlink\<close> runs
  between them and its failure is dropped.
\<close>

definition on_close :: "bool \<Rightarrow> 'doc Invocation \<Rightarrow> int option \<Rightarrow> 'doc Invocation" where
  "on_close unl s code =
     (case output_file s of
        NoFile \<Rightarrow>
          s\<lparr>promise := settle (promise s) (Rejected (Error (no_output_message (stderr s) code)))\<rparr>
      | Unreadable e \<Rightarrow>
          s\<lparr>promise := settle (promise s) (Rejected e)\<rparr>
      | Malformed e \<Rightarrow>
          s\<lparr>promise := settle (promise s) (Rejected e),
            output_file := (if unl then NoFile else output_file s)\<rparr>
      | Holds result \<Rightarrow>
          s\<lparr>promise := settle (promise s) (Resolved result),
            output_file := (if unl then NoFile else output_file s)\<rparr>)"

fun handle_event :: "bool \<Rightarrow> 'doc Invocation \<Rightarrow> proc_event \<Rightarrow> 'doc Invocation" where
  "handle_event unl s (StderrData d) = s\<lparr>stderr := stderr s @ d\<rparr>"
| "handle_event unl s (Close code) = on_close unl s code"
| "handle_event unl s (ProcError m) =
     s\<lparr>promise := settle (promise s) (Rejected (Error (''Failed to run EPUBCheck: '' @ m)))\<rparr>"

text \<open>
  The result of a call: the process spawned (command, arguments, working directory), if
  any, and the state the handlers leave.
\<close>

record 'doc Outcome =
  spawned :: "(string \<times> string list \<times> string) option"
  final :: "'doc Invocation"

definition runEpubCheck :: "Env \<Rightarrow> 'doc Run \<Rightarrow> ValidateOptions \<Rightarrow> 'doc Outcome" where
  "runEpubCheck E R options =
     (case getJarPath E of
        Inl e \<Rightarrow>
          \<lparr>spawned = None,
           final = \<lparr>stderr = [], promise = Some (Rejected e), output_file = artifact R\<rparr>\<rparr>
      | Inr jarPath \<Rightarrow>
          (let jsonOutputPath = path_join E [tmpdir R, ''epubcheck-'' @ randomUUID R @ ''.json''];
               args = buildArgs options jsonOutputPath
           in \<lparr>spawned = Some (''java'', [''-jar'', jarPath] @ args, path_dirname E jarPath),
               final = foldl (handle_event (unlink_ok R))
                         \<lparr>stderr = [], promise = None, output_file = artifact R\<rparr>
                         (events R)\<rparr>))"

section \<open>Example environments\<close>

text \<open>
  Two concrete environments for \<open>getJarPath\<close>. In the first the override names a
  file that does not exist and no candidate exists; in the second there is no override and
  the second and third candidates exist. \<open>path_join\<close> is given by its value on the
  three argument lists that \<open>possiblePaths\<close> passes.
\<close>

definition env_override_missing :: Env where
  "env_override_missing =
     \<lparr>EPUBCHECK_JAR_PATH = Some ''/opt/missing.jar'',
      module_dirname = ''/app'',
      cwd = ''/srv'',
      existsSync = (\<lambda>p. False),
      path_join = (\<lambda>ps. if ps = [''/app'', ''..'', ''bin'', ''epubcheck.jar'']
                         then ''/bin/epubcheck.jar'' else array_join ''/'' ps),
      path_dirname = (\<lambda>p. ''/opt'')\<rparr>"

definition env_second_exists :: Env where
  "env_second_exists =
     \<lparr>EPUBCHECK_JAR_PATH = None,
      module_dirname = ''/app'',
      cwd = ''/srv'',
      existsSync = (\<lambda>p. p = ''/app/bin/epubcheck.jar'' \<or> p = ''/srv/bin/epubcheck.jar''),
      path_join = (\<lambda>ps. if ps = [''/app'', ''..'', ''bin'', ''epubcheck.jar'']
                         then ''/bin/epubcheck.jar'' else array_join ''/'' ps),
      path_dirname = (\<lambda>p. ''/app/bin'')\<rparr>"

section \<open>Example runs\<close>

text \<open>
  Concrete runs of the engine for \<open>runEpubCheck\<close>: one that leaves an output file
  holding the start of a report only (such as the single character \<^verbatim>\<open>{\<close>), on which
  \<^verbatim>\<open>JSON.parse\<close> throws; one that writes a report; and one that writes no file.
\<close>

definition run_truncated_output :: "'doc Run" where
  "run_truncated_output =
     \<lparr>tmpdir = ''/tmp'',
      randomUUID = ''123e4567-e89b-12d3-a456-426614174000'',
      events = [Close (Some 1)],
      artifact = Malformed (SyntaxError ''Unexpected end of JSON input''),
      unlink_ok = True\<rparr>"

definition run_with_report :: "int option \<Rightarrow> string Run" where
  "run_with_report code =
     \<lparr>tmpdir = ''/tmp'',
      randomUUID = ''123e4567-e89b-12d3-a456-426614174000'',
      events = [StderrData ''Check finished '', StderrData ''with errors'', Close code],
      artifact = Holds ''report'',
      unlink_ok = True\<rparr>"

definition run_without_output :: "string list \<Rightarrow> int option \<Rightarrow> string Run" where
  "run_without_output chunks code =
     \<lparr>tmpdir = ''/tmp'',
      randomUUID = ''123e4567-e89b-12d3-a456-426614174000'',
      events = map StderrData chunks @ [Close code],
      artifact = NoFile,
      unlink_ok = True\<rparr>"

definition request_epub :: ValidateOptions where
  "request_epub =
     \<lparr>path = ''/books/a.epub'', mode = None, profile = Some ProfDefault, version = None\<rparr>"

section \<open>isUpdateAvailable (version-checker.ts)\<close>




text \<open>Decimal digits and the number a string of digits denotes (the empty string: 0).\<close>

definition is_digit :: "char \<Rightarrow> bool" where
  "is_digit c = (c \<in> set ''0123456789'')"













section \<open>The update check (version-checker.ts)\<close>

record VersionCache =
  lastCheck :: int
  latestVersion :: "string option"
  currentVersion :: string

definition CHECK_INTERVAL :: int where
  "CHECK_INTERVAL = 24 * 60 * 60 * 1000"

text \<open>
  \<open>loadCache\<close>: the body of the \<^verbatim>\<open>try\<close> block returns the parsed record, or
  falls through when the file does not exist, or throws; the \<^verbatim>\<open>catch\<close> drops the
  error, and \<^verbatim>\<open>null\<close> is returned.
\<close>

fun read_cache :: "VersionCache json_file \<Rightarrow> js_error + VersionCache option" where
  "read_cache NoFile = Inr None"
| "read_cache (Unreadable e) = Inl e"
| "read_cache (Malformed e) = Inl e"
| "read_cache (Holds c) = Inr (Some c)"

definition loadCache :: "VersionCache json_file \<Rightarrow> VersionCache option" where
  "loadCache f = (case read_cache f of Inl e \<Rightarrow> None | Inr r \<Rightarrow> r)"

text \<open>
  \<open>saveCache\<close>: the directory is created when missing and the file is written; when
  either step throws, the error is dropped and the file stays as it was.
\<close>

definition saveCache :: "bool \<Rightarrow> VersionCache json_file \<Rightarrow> VersionCache \<Rightarrow> VersionCache json_file" where
  "saveCache write_ok f cache = (if write_ok then Holds cache else f)"

text \<open>
  What the request to the release endpoint comes to: \<^verbatim>\<open>fetch\<close> throws, or there is
  a response with its \<^verbatim>\<open>ok\<close> flag and a body. The body is not JSON, or is the
  JSON value \<^verbatim>\<open>null\<close>, or some other JSON value, of which only \<^verbatim>\<open>tag_name\<close>
  is read: absent (or \<^verbatim>\<open>null\<close>), a string, or a value of another kind.
\<close>

datatype tag_name = NoTag | TagString string | TagOther

datatype response_body = NotJson | JsonNull | JsonValue tag_name

datatype fetch_outcome = NetworkError | Response bool response_body

text \<open>\<^verbatim>\<open>s.replace(/^v/, "")\<close>: one leading \<^verbatim>\<open>v\<close> is removed.\<close>

fun strip_v :: "string \<Rightarrow> string" where
  "strip_v [] = []"
| "strip_v (c # cs) = (if c = CHR ''v'' then cs else c # cs)"

text \<open>
  \<open>fetchLatestVersion\<close>: the body of the \<^verbatim>\<open>try\<close> block, then the \<^verbatim>\<open>catch\<close>
  that turns every error into \<^verbatim>\<open>null\<close>. An empty string after stripping is falsy
  and gives \<^verbatim>\<open>null\<close> as well.
\<close>

fun fetch_body :: "fetch_outcome \<Rightarrow> js_error + string option" where
  "fetch_body NetworkError = Inl (TypeError ''fetch failed'')"
| "fetch_body (Response ok body) =
     (if \<not> ok then Inr None
      else case body of
             NotJson \<Rightarrow> Inl (SyntaxError ''Unexpected token'')
           | JsonNull \<Rightarrow> Inl (TypeError ''Cannot read properties of null'')
           | JsonValue NoTag \<Rightarrow> Inr None
           | JsonValue TagOther \<Rightarrow> Inl (TypeError ''replace is not a function'')
           | JsonValue (TagString s) \<Rightarrow>
               Inr (if strip_v s = [] then None else Some (strip_v s)))"

definition fetchLatestVersion :: "fetch_outcome \<Rightarrow> string option" where
  "fetchLatestVersion out = (case fetch_body out of Inl e \<Rightarrow> None | Inr r \<Rightarrow> r)"

text \<open>
  The input and output the update check performs, in order: reading the cache file,
  starting a request, writing the cache file.
\<close>

datatype effect = ReadCache | Fetch | WriteCache VersionCache

text \<open>
  The state of the module and of its surroundings. \<open>versionCheckPromise\<close> tells whether
  the variable holds a promise. \<open>running\<close> lists the asynchronous bodies that were
  started and have not concluded, each with the \<open>currentVersion\<close> it captured; the code
  has no such list, it is kept here to count the requests in flight independently of the
  variable.
\<close>

record Checker =
  cachedLatestVersion :: "string option"
  versionCheckPromise :: bool
  running :: "string list"
  cacheFile :: "VersionCache json_file"
  trace :: "effect list"

definition getCachedLatestVersion :: "Checker \<Rightarrow> string option" where
  "getCachedLatestVersion st = cachedLatestVersion st"

text \<open>
  The synchronous part of \<open>checkForUpdatesAsync\<close>, called at time \<open>now\<close>: up to and
  including the start of the asynchronous body, which runs as far as the request.
\<close>

definition checkForUpdatesAsync :: "int \<Rightarrow> string \<Rightarrow> Checker \<Rightarrow> Checker" where
  "checkForUpdatesAsync now cur st =
     (if versionCheckPromise st then st
      else
        (let cache = loadCache (cacheFile st);
             st1 = st\<lparr>trace := trace st @ [ReadCache]\<rparr>;
             st2 = (case cache of
                      Some c \<Rightarrow> st1\<lparr>cachedLatestVersion := latestVersion c\<rparr>
                    | None \<Rightarrow> st1)
         in if (case cache of Some c \<Rightarrow> now - lastCheck c < CHECK_INTERVAL | None \<Rightarrow> False)
            then st2
            else st2\<lparr>versionCheckPromise := True,
                     running := running st2 @ [cur],
                     trace := trace st2 @ [Fetch]\<rparr>))"

text \<open>
  The rest of the asynchronous body, run when the request of the oldest running body
  comes to \<open>out\<close>, at time \<open>now\<close>; \<open>write_ok\<close> tells whether the cache file can be
  written. The \<^verbatim>\<open>finally\<close> block clears the variable.
\<close>

definition conclude :: "fetch_outcome \<Rightarrow> int \<Rightarrow> bool \<Rightarrow> Checker \<Rightarrow> Checker" where
  "conclude out now write_ok st =
     (case running st of
        [] \<Rightarrow> st
      | cur # rest \<Rightarrow>
          (let st1 = (case fetchLatestVersion out of
                        Some v \<Rightarrow>
                          (let cache = \<lparr>lastCheck = now, latestVersion = Some v,
                                        currentVersion = cur\<rparr>
                           in st\<lparr>cachedLatestVersion := Some v,
                                 cacheFile := saveCache write_ok (cacheFile st) cache,
                                 trace := trace st @ [WriteCache cache]\<rparr>)
                      | None \<Rightarrow> st)
           in st1\<lparr>versionCheckPromise := False, running := rest\<rparr>))"

text \<open>What happens to the module: a trigger, or the conclusion of a request.\<close>

datatype checker_event = Trigger int string | Conclude fetch_outcome int bool

fun checker_step :: "Checker \<Rightarrow> checker_event \<Rightarrow> Checker" where
  "checker_step st (Trigger now cur) = checkForUpdatesAsync now cur st"
| "checker_step st (Conclude out now write_ok) = conclude out now write_ok st"

definition checker_run :: "Checker \<Rightarrow> checker_event list \<Rightarrow> Checker" where
  "checker_run st evs = foldl checker_step st evs"

text \<open>The module as loaded, beside a cache file \<open>f\<close>.\<close>

definition checker_init :: "VersionCache json_file \<Rightarrow> Checker" where
  "checker_init f =
     \<lparr>cachedLatestVersion = None, versionCheckPromise = False, running = [],
      cacheFile = f, trace = []\<rparr>"

text \<open>
  Single flight: at most one request is running, and the variable holds a promise
  exactly when one is.
\<close>

definition single_flight :: "Checker \<Rightarrow> bool" where
  "single_flight st =
     (length (running st) \<le> 1 \<and> versionCheckPromise st = (running st \<noteq> []))"

section \<open>getEpubCheckVersion (runner.ts)\<close>

text \<open>
  The match of \<^verbatim>\<open>/EPUBCheck v([\d.]+)/\<close>: at the leftmost place where
  \<^verbatim>\<open>EPUBCheck v\<close> is followed by a digit or a dot, the longest run of digits and
  dots.
\<close>

definition is_version_char :: "char \<Rightarrow> bool" where
  "is_version_char c = (is_digit c \<or> c = CHR ''.'')"

fun version_match :: "string \<Rightarrow> string option" where
  "version_match [] = None"
| "version_match (c # cs) =
     (if take 11 (c # cs) = ''EPUBCheck v'' \<and> takeWhile is_version_char (drop 11 (c # cs)) \<noteq> []
      then Some (takeWhile is_version_char (drop 11 (c # cs)))
      else version_match cs)"

text \<open>The events of the version process: a chunk on standard output, \<^verbatim>\<open>close\<close>, \<^verbatim>\<open>error\<close>.\<close>

datatype version_event = StdoutData string | VClose | VError string

text \<open>
  The module state of \<^verbatim>\<open>runner.ts\<close> with the update check it calls, and the list
  of the processes spawned so far (each as its command line).
\<close>

record Runner =
  cachedVersion :: "string option"
  checker :: Checker
  spawns :: "string list list"

text \<open>The state of one call: the text collected from standard output and the promise.\<close>

record VersionCall =
  stdout :: string
  vpromise :: "string settled option"
  runner :: Runner

text \<open>
  The handlers. \<open>trim\<close> stands for \<^verbatim>\<open>String.prototype.trim\<close>; \<open>now\<close> is the time
  at which the \<^verbatim>\<open>close\<close> handler runs.
\<close>

definition on_version_close :: "(string \<Rightarrow> string) \<Rightarrow> int \<Rightarrow> VersionCall \<Rightarrow> VersionCall" where
  "on_version_close trim now s =
     (case version_match (stdout s) of
        Some v \<Rightarrow>
          s\<lparr>runner := (runner s)\<lparr>cachedVersion := Some v,
                                  checker := checkForUpdatesAsync now v (checker (runner s))\<rparr>,
            vpromise := settle (vpromise s) (Resolved v)\<rparr>
      | None \<Rightarrow>
          s\<lparr>vpromise := settle (vpromise s)
              (Resolved (if trim (stdout s) \<noteq> [] then trim (stdout s) else ''unknown''))\<rparr>)"

fun handle_version_event ::
  "(string \<Rightarrow> string) \<Rightarrow> int \<Rightarrow> VersionCall \<Rightarrow> version_event \<Rightarrow> VersionCall" where
  "handle_version_event trim now s (StdoutData d) = s\<lparr>stdout := stdout s @ d\<rparr>"
| "handle_version_event trim now s VClose = on_version_close trim now s"
| "handle_version_event trim now s (VError m) =
     s\<lparr>vpromise := settle (vpromise s)
         (Rejected (Error (''Failed to get EPUBCheck version: '' @ m)))\<rparr>"

text \<open>
  \<open>getEpubCheckVersion\<close>, given the events \<open>evs\<close> of the process it may spawn: the
  promise it returns and the module state afterwards.
\<close>

definition getEpubCheckVersion ::
  "(string \<Rightarrow> string) \<Rightarrow> Env \<Rightarrow> int \<Rightarrow> version_event list \<Rightarrow> Runner
     \<Rightarrow> string settled option \<times> Runner" where
  "getEpubCheckVersion trim E now evs st =
     (if truthy (cachedVersion st) then (Some (Resolved (the (cachedVersion st))), st)
      else case getJarPath E of
             Inl e \<Rightarrow> (Some (Rejected e), st)
           | Inr jarPath \<Rightarrow>
               (let st1 = st\<lparr>spawns := spawns st @ [[''java'', ''-jar'', jarPath, ''--version'']]\<rparr>;
                    s = foldl (handle_version_event trim now)
                          \<lparr>stdout = [], vpromise = None, runner = st1\<rparr> evs
                in (vpromise s, runner s)))"

section \<open>Example states of the version functions\<close>

text \<open>Whether a trigger at time \<open>now\<close> finds a cache record within the interval.\<close>

definition cache_fresh :: "int \<Rightarrow> VersionCache json_file \<Rightarrow> bool" where
  "cache_fresh now f =
     (case loadCache f of Some c \<Rightarrow> now - lastCheck c < CHECK_INTERVAL | None \<Rightarrow> False)"

text \<open>
  A module with no cache file on which one trigger has started a request, and a module
  beside a cache record written at time 1700000000000.
\<close>

definition checker_in_flight :: Checker where
  "checker_in_flight = checkForUpdatesAsync 0 ''5.3.0'' (checker_init NoFile)"

definition checker_with_record :: Checker where
  "checker_with_record =
     checker_init (Holds \<lparr>lastCheck = 1700000000000, latestVersion = Some ''5.3.0'',
                          currentVersion = ''5.2.1''\<rparr>)"

text \<open>
  \<^verbatim>\<open>trim\<close> on text whose white space is ASCII (tab, line feed, vertical tab, form
  feed, carriage return, space); an environment with neither override nor jar; and the
  state of \<^verbatim>\<open>runner.ts\<close> as loaded.
\<close>

definition ascii_trim :: "string \<Rightarrow> string" where
  "ascii_trim s =
     (let sp = (\<lambda>c. c \<in> set [CHR 0x09, CHR 0x0A, CHR 0x0B, CHR 0x0C, CHR 0x0D, CHR '' ''])
      in rev (dropWhile sp (rev (dropWhile sp s))))"

definition env_no_jar :: Env where
  "env_no_jar = env_override_missing\<lparr>EPUBCHECK_JAR_PATH := None\<rparr>"

definition runner_init :: "VersionCache json_file \<Rightarrow> Runner" where
  "runner_init f = \<lparr>cachedVersion = None, checker = checker_init f, spawns = []\<rparr>"

section \<open>Properties of buildArgs\<close>

lemma mode_str_nonempty: "mode_str m \<noteq> []"
  by (cases m) simp_all

lemma profile_str_nonempty: "profile_str p \<noteq> []"
  by (cases p) simp_all

lemma version_str_nonempty: "version_str v \<noteq> []"
  by (cases v) simp_all

lemma mode_str_epub: "(mode_str m = ''epub'') = (m = Epub)"
  by (cases m) simp_all

lemma profile_str_default: "(profile_str p = ''default'') = (p = ProfDefault)"
  by (cases p) simp_all

text \<open>No value of the three enumerations is spelled like a flag.\<close>

lemma mode_str_no_flag: "mode_str m \<notin> {''--mode'', ''--profile'', ''-v''}"
  by (cases m) simp_all

lemma profile_str_no_flag: "profile_str p \<notin> {''--mode'', ''--profile'', ''-v''}"
  by (cases p) simp_all

lemma version_str_no_flag: "version_str v \<notin> {''--mode'', ''--profile'', ''-v''}"
  by (cases v) simp_all

lemma buildArgs_shape:
  "buildArgs options out =
     ''--json'' # out #
       (mode_args (mode options) @ profile_args (profile options)
          @ version_args (mode options) (version options))
       @ [path options]"
  by (cases "mode options"; cases "profile options"; cases "version options")
     (simp_all add: buildArgs_def mode_args_def profile_args_def version_args_def
      default_mode_def default_profile_def mode_str_nonempty profile_str_nonempty
      version_str_nonempty mode_str_epub profile_str_default Let_def)

lemma flag_section_buildArgs:
  "flag_section (buildArgs options out) =
     mode_args (mode options) @ profile_args (profile options)
       @ version_args (mode options) (version options)"
  by (simp add: buildArgs_shape flag_section_def butlast_append)

text \<open>
  Claim C2. For every request and every output path, the vector that \<open>buildArgs\<close>
  returns starts with \<^verbatim>\<open>--json\<close>, directly followed by the output path, and
  its last element is the target path of the request. (\<open>buildArgs\<close> is a function of
  its two arguments, so it is pure.)
\<close>

theorem buildArgs_json_first_path_last:
  "take 2 (buildArgs options out) = [''--json'', out] \<and>
   last (buildArgs options out) = path options"
  by (simp add: buildArgs_shape)

text \<open>
  Claim C3. Between the output path and the target path, \<^verbatim>\<open>--mode\<close> stands
  exactly once, followed by the mode, when the mode is given and is not \<^verbatim>\<open>epub\<close>,
  and does not stand otherwise; \<^verbatim>\<open>--profile\<close> likewise for a profile that is
  given and is not \<^verbatim>\<open>default\<close>; and \<^verbatim>\<open>-v\<close> stands, once and followed by
  the version, exactly when a version is given and the mode is not the default.
\<close>

theorem buildArgs_optional_flags:
  "count_list (flag_section (buildArgs options out)) ''--mode''
     = (if default_mode (mode options) then 0 else 1) \<and>
   flag_value ''--mode'' (flag_section (buildArgs options out))
     = (if default_mode (mode options) then None else map_option mode_str (mode options)) \<and>
   count_list (flag_section (buildArgs options out)) ''--profile''
     = (if default_profile (profile options) then 0 else 1) \<and>
   flag_value ''--profile'' (flag_section (buildArgs options out))
     = (if default_profile (profile options) then None
        else map_option profile_str (profile options)) \<and>
   count_list (flag_section (buildArgs options out)) ''-v''
     = (if version options \<noteq> None \<and> \<not> default_mode (mode options) then 1 else 0) \<and>
   flag_value ''-v'' (flag_section (buildArgs options out))
     = (if default_mode (mode options) then None
        else map_option version_str (version options))"
  using mode_str_no_flag [of "the (mode options)"]
        profile_str_no_flag [of "the (profile options)"]
        version_str_no_flag [of "the (version options)"]
  by (cases "mode options"; cases "profile options"; cases "version options")
     (simp_all add: flag_section_buildArgs mode_args_def profile_args_def version_args_def
        default_mode_def default_profile_def)

text \<open>
  The theorem at a request whose target path is spelled like a flag: single-file mode
  \<^verbatim>\<open>opf\<close>, profile \<^verbatim>\<open>default\<close>, version 3.0.
\<close>

theorem buildArgs_json_first_path_last_witness:
  "take 2 (buildArgs \<lparr>path = ''--mode'', mode = Some Opf, profile = Some ProfDefault,
                       version = Some V3_0\<rparr> ''/tmp/out.json'')
     = [''--json'', ''/tmp/out.json''] \<and>
   last (buildArgs \<lparr>path = ''--mode'', mode = Some Opf, profile = Some ProfDefault,
                     version = Some V3_0\<rparr> ''/tmp/out.json'') = ''--mode''"
  using buildArgs_json_first_path_last
    [of "\<lparr>path = ''--mode'', mode = Some Opf, profile = Some ProfDefault,
          version = Some V3_0\<rparr>" "''/tmp/out.json''"]
  by simp

text \<open>The same request: the vector it gives, and what the theorem says of it.\<close>

theorem buildArgs_optional_flags_witness:
  "buildArgs \<lparr>path = ''--mode'', mode = Some Opf, profile = Some ProfDefault,
              version = Some V3_0\<rparr> ''/tmp/out.json''
     = [''--json'', ''/tmp/out.json'', ''--mode'', ''opf'', ''-v'', ''3.0'', ''--mode''] \<and>
   count_list (flag_section (buildArgs \<lparr>path = ''--mode'', mode = Some Opf,
       profile = Some ProfDefault, version = Some V3_0\<rparr> ''/tmp/out.json'')) ''--mode'' = 1 \<and>
   flag_value ''--profile'' (flag_section (buildArgs \<lparr>path = ''--mode'', mode = Some Opf,
       profile = Some ProfDefault, version = Some V3_0\<rparr> ''/tmp/out.json'')) = None \<and>
   flag_value ''-v'' (flag_section (buildArgs \<lparr>path = ''--mode'', mode = Some Opf,
       profile = Some ProfDefault, version = Some V3_0\<rparr> ''/tmp/out.json'')) = Some ''3.0''"
proof -
  let ?o = "\<lparr>path = ''--mode'', mode = Some Opf, profile = Some ProfDefault,
             version = Some V3_0\<rparr>"
  have "buildArgs ?o ''/tmp/out.json''
     = [''--json'', ''/tmp/out.json'', ''--mode'', ''opf'', ''-v'', ''3.0'', ''--mode'']"
    by (simp add: buildArgs_def)
  then show ?thesis
    using buildArgs_optional_flags [of ?o "''/tmp/out.json''"]
    by (simp add: default_mode_def default_profile_def)
qed

section \<open>Properties of getJarPath\<close>

text \<open>The loop returns the first path that exists, and nothing when none does.\<close>

lemma first_existing_Some:
  "(first_existing ex ps = Some p) =
     (\<exists>i < length ps. ps ! i = p \<and> ex p \<and> (\<forall>j < i. \<not> ex (ps ! j)))"
proof (induction ps)
  case Nil
  then show ?case by simp
next
  case (Cons q qs)
  show ?case
  proof (cases "ex q")
    case True
    have "(q = p) = (\<exists>i < length (q # qs). (q # qs) ! i = p \<and> ex p \<and> (\<forall>j < i. \<not> ex ((q # qs) ! j)))"
    proof
      assume "q = p"
      with True show "\<exists>i < length (q # qs). (q # qs) ! i = p \<and> ex p \<and> (\<forall>j < i. \<not> ex ((q # qs) ! j))"
        by (intro exI [of _ 0]) simp
    next
      assume "\<exists>i < length (q # qs). (q # qs) ! i = p \<and> ex p \<and> (\<forall>j < i. \<not> ex ((q # qs) ! j))"
      then obtain i where i: "(q # qs) ! i = p" "\<forall>j < i. \<not> ex ((q # qs) ! j)" by blast
      have "i = 0"
      proof (rule ccontr)
        assume "i \<noteq> 0"
        then have "0 < i" by simp
        with i(2) have "\<not> ex ((q # qs) ! 0)" by blast
        with True show False by simp
      qed
      with i(1) show "q = p" by simp
    qed
    with True show ?thesis by simp
  next
    case False
    have "(\<exists>i < length qs. qs ! i = p \<and> ex p \<and> (\<forall>j < i. \<not> ex (qs ! j))) =
          (\<exists>i < length (q # qs). (q # qs) ! i = p \<and> ex p \<and> (\<forall>j < i. \<not> ex ((q # qs) ! j)))"
      (is "?L = ?R")
    proof
      assume ?L
      then obtain i where i: "i < length qs" "qs ! i = p" "ex p" "\<forall>j < i. \<not> ex (qs ! j)"
        by blast
      have "\<forall>j < Suc i. \<not> ex ((q # qs) ! j)"
        using False i(4) by (auto simp: nth_Cons split: nat.splits)
      with i show ?R by (intro exI [of _ "Suc i"]) simp
    next
      assume ?R
      then obtain i where i: "i < length (q # qs)" "(q # qs) ! i = p" "ex p"
        "\<forall>j < i. \<not> ex ((q # qs) ! j)" by blast
      from i(2,3) False have "i \<noteq> 0" by (cases i) auto
      then obtain k where k: "i = Suc k" by (cases i) auto
      have "\<forall>j < k. \<not> ex (qs ! j)"
      proof (intro allI impI)
        fix j assume "j < k"
        then have "Suc j < i" using k by simp
        with i(4) have "\<not> ex ((q # qs) ! Suc j)" by blast
        then show "\<not> ex (qs ! j)" by simp
      qed
      with i k show ?L by (intro exI [of _ k]) simp
    qed
    with False Cons.IH show ?thesis by simp
  qed
qed

lemma first_existing_None:
  "(first_existing ex ps = None) = (\<forall>p \<in> set ps. \<not> ex p)"
  by (induction ps) auto

text \<open>
  Claim C4 as stated fails: with the override set to a file that does not exist, and no
  candidate present, \<open>getJarPath\<close> returns the override, where a search over one
  list with the override first would fail with all four locations in its message.
\<close>

theorem getJarPath_override_unchecked_counterexample:
  "getJarPath env_override_missing = Inr ''/opt/missing.jar'' \<and>
   \<not> existsSync env_override_missing ''/opt/missing.jar'' \<and>
   spec_resolveExecutablePath env_override_missing =
     Inl (Error (not_found_message
       [''/opt/missing.jar'', ''/bin/epubcheck.jar'', ''/app/bin/epubcheck.jar'',
        ''/srv/bin/epubcheck.jar'']))"
  by (simp add: getJarPath_def spec_resolveExecutablePath_def spec_candidates_def
      possiblePaths_def env_override_missing_def)

text \<open>
  Claim C4, amended. When \<^verbatim>\<open>EPUBCHECK_JAR_PATH\<close> is set and not empty,
  \<open>getJarPath\<close> returns it without looking at the file system. Otherwise it agrees with
  the search of the specification over the three fixed locations: it returns a path exactly
  when that path is the first of the three that exists, and when none exists it fails with
  the message that lists the three locations.
\<close>

theorem getJarPath_override_or_first_existing:
  "(truthy (EPUBCHECK_JAR_PATH E) \<longrightarrow> getJarPath E = Inr (the (EPUBCHECK_JAR_PATH E))) \<and>
   (\<not> truthy (EPUBCHECK_JAR_PATH E) \<longrightarrow>
      getJarPath E = spec_resolveExecutablePath E \<and>
      (\<forall>p. getJarPath E = Inr p \<longleftrightarrow>
         (\<exists>i < length (possiblePaths E). possiblePaths E ! i = p \<and> existsSync E p \<and>
            (\<forall>j < i. \<not> existsSync E (possiblePaths E ! j)))) \<and>
      ((\<forall>p \<in> set (possiblePaths E). \<not> existsSync E p) \<longrightarrow>
         getJarPath E = Inl (Error (not_found_message (possiblePaths E)))))"
proof (intro conjI impI)
  assume "truthy (EPUBCHECK_JAR_PATH E)"
  then show "getJarPath E = Inr (the (EPUBCHECK_JAR_PATH E))"
    by (simp add: getJarPath_def)
next
  assume n: "\<not> truthy (EPUBCHECK_JAR_PATH E)"
  then have "spec_candidates E = possiblePaths E"
    by (simp add: spec_candidates_def)
  with n show "getJarPath E = spec_resolveExecutablePath E"
    by (simp add: getJarPath_def spec_resolveExecutablePath_def split: option.splits)
  show "\<forall>p. getJarPath E = Inr p \<longleftrightarrow>
         (\<exists>i < length (possiblePaths E). possiblePaths E ! i = p \<and> existsSync E p \<and>
            (\<forall>j < i. \<not> existsSync E (possiblePaths E ! j)))"
  proof
    fix p
    have "(getJarPath E = Inr p) = (first_existing (existsSync E) (possiblePaths E) = Some p)"
      using n by (simp add: getJarPath_def split: option.splits)
    then show "getJarPath E = Inr p \<longleftrightarrow>
         (\<exists>i < length (possiblePaths E). possiblePaths E ! i = p \<and> existsSync E p \<and>
            (\<forall>j < i. \<not> existsSync E (possiblePaths E ! j)))"
      by (simp only: first_existing_Some)
  qed
next
  assume n: "\<not> truthy (EPUBCHECK_JAR_PATH E)"
    and a: "\<forall>p \<in> set (possiblePaths E). \<not> existsSync E p"
  from a have "first_existing (existsSync E) (possiblePaths E) = None"
    by (simp only: first_existing_None)
  with n show "getJarPath E = Inl (Error (not_found_message (possiblePaths E)))"
    by (simp add: getJarPath_def)
qed

text \<open>
  The theorem at three environments: the override set, the second location the first
  that exists, and an empty override with no location present.
\<close>

theorem getJarPath_witness:
  "getJarPath env_override_missing = Inr ''/opt/missing.jar'' \<and>
   getJarPath env_second_exists = Inr ''/app/bin/epubcheck.jar'' \<and>
   getJarPath (env_override_missing\<lparr>EPUBCHECK_JAR_PATH := Some []\<rparr>) =
     Inl (Error (''EPUBCheck JAR not found. Searched in: /bin/epubcheck.jar, '' @
       ''/app/bin/epubcheck.jar, /srv/bin/epubcheck.jar. Set EPUBCHECK_JAR_PATH '' @
       ''environment variable or ensure bin/epubcheck.jar exists.''))"
proof -
  let ?E3 = "env_override_missing\<lparr>EPUBCHECK_JAR_PATH := Some []\<rparr>"
  have t1: "truthy (EPUBCHECK_JAR_PATH env_override_missing)"
    by (simp add: env_override_missing_def)
  have t2: "\<not> truthy (EPUBCHECK_JAR_PATH env_second_exists)"
    by (simp add: env_second_exists_def)
  have t3: "\<not> truthy (EPUBCHECK_JAR_PATH ?E3)"
    by simp
  have p2: "possiblePaths env_second_exists =
      [''/bin/epubcheck.jar'', ''/app/bin/epubcheck.jar'', ''/srv/bin/epubcheck.jar'']"
    by (simp add: possiblePaths_def env_second_exists_def)
  have p3: "possiblePaths ?E3 =
      [''/bin/epubcheck.jar'', ''/app/bin/epubcheck.jar'', ''/srv/bin/epubcheck.jar'']"
    by (simp add: possiblePaths_def env_override_missing_def)
  have e2: "\<exists>i < length (possiblePaths env_second_exists).
      possiblePaths env_second_exists ! i = ''/app/bin/epubcheck.jar'' \<and>
      existsSync env_second_exists ''/app/bin/epubcheck.jar'' \<and>
      (\<forall>j < i. \<not> existsSync env_second_exists (possiblePaths env_second_exists ! j))"
    unfolding p2 by (rule exI [of _ 1]) (simp add: env_second_exists_def)
  have e3: "\<forall>p \<in> set (possiblePaths ?E3). \<not> existsSync ?E3 p"
    by (simp add: env_override_missing_def)
  have r1: "getJarPath env_override_missing = Inr ''/opt/missing.jar''"
    using getJarPath_override_or_first_existing [of env_override_missing] t1
    by (simp add: env_override_missing_def)
  have r2: "getJarPath env_second_exists = Inr ''/app/bin/epubcheck.jar''"
    using getJarPath_override_or_first_existing [of env_second_exists] t2 e2 by blast
  have r3: "getJarPath ?E3 = Inl (Error (not_found_message (possiblePaths ?E3)))"
    using getJarPath_override_or_first_existing [of ?E3] t3 e3 by blast
  show ?thesis
    using r1 r2 r3 unfolding p3 by (simp add: not_found_message_def)
qed

section \<open>Properties of runEpubCheck\<close>

lemma settle_Some: "settle (Some v) w = Some v"
  by (simp add: settle_def)

lemma settle_None: "settle None w = Some w"
  by (simp add: settle_def)

text \<open>A settled promise stays as it is, whatever events follow.\<close>

lemma on_close_settled: "promise s = Some v \<Longrightarrow> promise (on_close u s code) = Some v"
  by (simp add: on_close_def settle_Some split: json_file.splits)

lemma handle_event_settled:
  "promise s = Some v \<Longrightarrow> promise (handle_event u s ev) = Some v"
  by (cases ev) (simp_all add: on_close_settled settle_Some)

lemma foldl_handle_event_settled:
  "promise s = Some v \<Longrightarrow> promise (foldl (handle_event u) s evs) = Some v"
  by (induction evs arbitrary: s) (simp_all add: handle_event_settled)

lemma foldl_stderr_chunks:
  "foldl (handle_event u) s (map StderrData chunks) = s\<lparr>stderr := stderr s @ concat chunks\<rparr>"
  by (induction chunks arbitrary: s) simp_all

lemma on_close_pending:
  "promise s = None \<Longrightarrow>
   promise (on_close u s code) =
     Some (case output_file s of
             NoFile \<Rightarrow>
               Rejected (Error (''EPUBCheck failed to produce output: '' @
                 (if stderr s = [] then ''exit code '' @ show_code code else stderr s)))
           | Unreadable e \<Rightarrow> Rejected e
           | Malformed e \<Rightarrow> Rejected e
           | Holds d \<Rightarrow> Resolved d)"
  by (simp add: on_close_def settle_None no_output_message_def split: json_file.splits)

text \<open>
  Claim C1 as stated fails: the output file exists when the process closes, but its text
  does not parse, and the promise is rejected with the error of \<^verbatim>\<open>JSON.parse\<close>
  instead of resolving.
\<close>

theorem runEpubCheck_truncated_output_counterexample:
  "file_exists (artifact (run_truncated_output :: string Run)) \<and>
   promise (final (runEpubCheck env_second_exists (run_truncated_output :: string Run)
       request_epub))
     = Some (Rejected (SyntaxError ''Unexpected end of JSON input''))"
  by (simp add: runEpubCheck_def getJarPath_def possiblePaths_def env_second_exists_def
      run_truncated_output_def on_close_def settle_def)

text \<open>
  Claim C1, amended. When the jar is found and the process closes with no
  \<^verbatim>\<open>error\<close> event before that, the promise is settled by the state of the output
  file, and the exit code enters only the text of one message: with no output file the
  promise is rejected with \<^verbatim>\<open>EPUBCheck failed to produce output:\<close> followed by the
  text collected from standard error or, when that is empty, by \<^verbatim>\<open>exit code N\<close>;
  with an output file that is read and parsed it resolves with the parsed document,
  whatever the exit code; with an output file on which reading or parsing throws it is
  rejected with the error thrown.
\<close>

theorem runEpubCheck_close_outcome:
  assumes "getJarPath E = Inr jar"
    and "events R = map StderrData chunks @ Close code # rest"
  shows "promise (final (runEpubCheck E R options))
           = Some (case artifact R of
                     NoFile \<Rightarrow>
                       Rejected (Error (''EPUBCheck failed to produce output: '' @
                         (if concat chunks = [] then ''exit code '' @ show_code code
                          else concat chunks)))
                   | Unreadable e \<Rightarrow> Rejected e
                   | Malformed e \<Rightarrow> Rejected e
                   | Holds d \<Rightarrow> Resolved d)"
proof -
  let ?s0 = "\<lparr>stderr = [], promise = None, output_file = artifact R\<rparr>"
  let ?s1 = "foldl (handle_event (unlink_ok R)) ?s0 (map StderrData chunks)"
  let ?r = "case artifact R of
              NoFile \<Rightarrow>
                Rejected (Error (''EPUBCheck failed to produce output: '' @
                  (if concat chunks = [] then ''exit code '' @ show_code code
                   else concat chunks)))
            | Unreadable e \<Rightarrow> Rejected e
            | Malformed e \<Rightarrow> Rejected e
            | Holds d \<Rightarrow> Resolved d"
  have s1: "?s1 = ?s0\<lparr>stderr := concat chunks\<rparr>"
    by (simp add: foldl_stderr_chunks)
  have "promise (on_close (unlink_ok R) ?s1 code) = Some ?r"
    unfolding s1 by (subst on_close_pending) (auto split: json_file.splits)
  then have "promise (foldl (handle_event (unlink_ok R)) ?s0 (events R)) = Some ?r"
    unfolding assms(2) by (simp add: foldl_handle_event_settled)
  with assms(1) show ?thesis
    by (simp add: runEpubCheck_def)
qed

text \<open>
  The theorem at four runs: a report written with exit code 1 and with exit code 0, and
  no output with and without text on standard error.
\<close>

theorem runEpubCheck_close_outcome_witness:
  "promise (final (runEpubCheck env_second_exists (run_with_report (Some 1)) request_epub))
     = Some (Resolved ''report'') \<and>
   promise (final (runEpubCheck env_second_exists (run_with_report (Some 0)) request_epub))
     = Some (Resolved ''report'') \<and>
   promise (final (runEpubCheck env_second_exists (run_without_output [] (Some 0)) request_epub))
     = Some (Rejected (Error ''EPUBCheck failed to produce output: exit code 0'')) \<and>
   promise (final (runEpubCheck env_second_exists
       (run_without_output [''Unable to access jarfile''] (Some 1)) request_epub))
     = Some (Rejected (Error ''EPUBCheck failed to produce output: Unable to access jarfile''))"
proof -
  have jar: "getJarPath env_second_exists = Inr ''/app/bin/epubcheck.jar''"
    by (simp add: getJarPath_def possiblePaths_def env_second_exists_def)
  have ev1: "events (run_with_report code) =
      map StderrData [''Check finished '', ''with errors''] @ Close code # []" for code
    by (simp add: run_with_report_def)
  have ev2: "events (run_without_output chunks code) = map StderrData chunks @ Close code # []"
    for chunks code
    by (simp add: run_without_output_def)
  have d0: "digits 0 = ''0''"
    by (simp add: digits.simps)
  show ?thesis
    using runEpubCheck_close_outcome [OF jar ev1, of "Some 1" request_epub]
      runEpubCheck_close_outcome [OF jar ev1, of "Some 0" request_epub]
      runEpubCheck_close_outcome [OF jar ev2, of "[]" "Some 0" request_epub]
      runEpubCheck_close_outcome [OF jar ev2, of "[''Unable to access jarfile'']" "Some 1"
        request_epub]
    by (simp add: run_with_report_def run_without_output_def show_int_def d0)
qed

section \<open>Properties of isUpdateAvailable\<close>














section \<open>Properties of the update check\<close>

text \<open>Both steps keep the module in single flight, so every run does.\<close>

lemma single_flight_trigger:
  "single_flight st \<Longrightarrow> single_flight (checkForUpdatesAsync now cur st)"
  by (auto simp: single_flight_def checkForUpdatesAsync_def Let_def split: option.splits)

lemma single_flight_conclude:
  "single_flight st \<Longrightarrow> single_flight (conclude out now w st)"
  by (auto simp: single_flight_def conclude_def Let_def split: option.splits list.splits)

lemma single_flight_step:
  "single_flight st \<Longrightarrow> single_flight (checker_step st ev)"
  by (cases ev) (simp_all add: single_flight_trigger single_flight_conclude)

lemma single_flight_run:
  "single_flight st \<Longrightarrow> single_flight (checker_run st evs)"
  unfolding checker_run_def
  by (induction evs arbitrary: st) (simp_all add: single_flight_step)

lemma single_flight_init: "single_flight (checker_init f)"
  by (simp add: single_flight_def checker_init_def)

lemma trigger_in_flight:
  "versionCheckPromise st \<Longrightarrow> checkForUpdatesAsync now cur st = st"
  by (simp add: checkForUpdatesAsync_def)

lemma conclude_clears:
  "running st \<noteq> [] \<Longrightarrow> \<not> versionCheckPromise (conclude out now w st)"
  by (simp add: conclude_def Let_def split: list.splits option.splits)

lemma trigger_starts:
  assumes "\<not> versionCheckPromise st" and "\<not> cache_fresh now (cacheFile st)"
  shows "running (checkForUpdatesAsync now cur st) = running st @ [cur]"
    and "versionCheckPromise (checkForUpdatesAsync now cur st)"
    and "trace (checkForUpdatesAsync now cur st) = trace st @ [ReadCache, Fetch]"
  using assms
  by (simp_all add: checkForUpdatesAsync_def cache_fresh_def Let_def split: option.splits)

lemma checker_in_flight_eq:
  "checker_in_flight =
     \<lparr>cachedLatestVersion = None, versionCheckPromise = True, running = [''5.3.0''],
      cacheFile = NoFile, trace = [ReadCache, Fetch]\<rparr>"
  by (simp add: checker_in_flight_def checkForUpdatesAsync_def checker_init_def loadCache_def)

text \<open>
  Claim C6. Whatever triggers and conclusions the module goes through from its initial
  state, at most one request is running. A trigger while the variable holds a promise
  changes nothing: the cache is not read and no request starts. Two triggers in a row with
  no cache file read the cache once and start one request. The conclusion of a request
  clears the variable whatever the outcome, and the next trigger that finds no fresh cache
  starts a request again.
\<close>

theorem checkForUpdatesAsync_single_flight:
  "length (running (checker_run (checker_init f) evs)) \<le> 1 \<and>
   (versionCheckPromise st \<longrightarrow> checkForUpdatesAsync now cur st = st) \<and>
   trace (checker_run (checker_init NoFile) [Trigger now_a cur_a, Trigger now_b cur_b])
     = [ReadCache, Fetch] \<and>
   (running st \<noteq> [] \<longrightarrow> \<not> versionCheckPromise (conclude out t w st)) \<and>
   (single_flight st \<and> running st \<noteq> [] \<and>
    \<not> cache_fresh later (cacheFile (conclude out t w st)) \<longrightarrow>
      running (checkForUpdatesAsync later cur_next (conclude out t w st)) = [cur_next] \<and>
      trace (checkForUpdatesAsync later cur_next (conclude out t w st))
        = trace (conclude out t w st) @ [ReadCache, Fetch])"
proof (intro conjI impI)
  show "length (running (checker_run (checker_init f) evs)) \<le> 1"
    using single_flight_run [OF single_flight_init, of f evs]
    by (simp add: single_flight_def)
next
  assume "versionCheckPromise st"
  then show "checkForUpdatesAsync now cur st = st"
    by (rule trigger_in_flight)
next
  show "trace (checker_run (checker_init NoFile) [Trigger now_a cur_a, Trigger now_b cur_b])
     = [ReadCache, Fetch]"
    by (simp add: checker_run_def checker_init_def checkForUpdatesAsync_def loadCache_def)
next
  assume "running st \<noteq> []"
  then show "\<not> versionCheckPromise (conclude out t w st)"
    by (rule conclude_clears)
next
  assume a: "single_flight st \<and> running st \<noteq> [] \<and>
    \<not> cache_fresh later (cacheFile (conclude out t w st))"
  let ?c = "conclude out t w st"
  from a have sf: "single_flight ?c" by (simp add: single_flight_conclude)
  from a have nf: "\<not> versionCheckPromise ?c" by (simp add: conclude_clears)
  with sf have r: "running ?c = []" by (simp add: single_flight_def)
  from a have fr: "\<not> cache_fresh later (cacheFile ?c)" by simp
  show "running (checkForUpdatesAsync later cur_next ?c) = [cur_next]"
    using trigger_starts(1) [OF nf fr] r by simp
  show "trace (checkForUpdatesAsync later cur_next ?c) = trace ?c @ [ReadCache, Fetch]"
    using trigger_starts(3) [OF nf fr] .
qed

text \<open>
  The theorem at the module with one request running: a second trigger, the request
  failing on the network, and a third trigger.
\<close>

theorem checkForUpdatesAsync_single_flight_witness:
  "versionCheckPromise checker_in_flight \<and>
   checkForUpdatesAsync 5 ''5.3.0'' checker_in_flight = checker_in_flight \<and>
   \<not> versionCheckPromise (conclude NetworkError 9 True checker_in_flight) \<and>
   running (checkForUpdatesAsync 10 ''5.3.0'' (conclude NetworkError 9 True checker_in_flight))
     = [''5.3.0''] \<and>
   length (running (checker_run (checker_init NoFile)
     [Trigger 0 ''5.3.0'', Trigger 5 ''5.3.0'', Conclude NetworkError 9 True,
      Trigger 10 ''5.3.0''])) \<le> 1"
proof -
  have h1: "versionCheckPromise checker_in_flight"
    by (simp add: checker_in_flight_eq)
  have h2: "running checker_in_flight \<noteq> []"
    by (simp add: checker_in_flight_eq)
  have h3: "single_flight checker_in_flight"
    by (simp add: checker_in_flight_eq single_flight_def)
  have h4: "\<not> cache_fresh 10 (cacheFile (conclude NetworkError 9 True checker_in_flight))"
    by (simp add: checker_in_flight_eq conclude_def fetchLatestVersion_def cache_fresh_def
        loadCache_def)
  show ?thesis
    using h1 h2 h3 h4
      checkForUpdatesAsync_single_flight [where f = NoFile
        and evs = "[Trigger 0 ''5.3.0'', Trigger 5 ''5.3.0'', Conclude NetworkError 9 True,
                    Trigger 10 ''5.3.0'']"
        and st = checker_in_flight and now = 5 and cur = "''5.3.0''"
        and out = NetworkError and t = 9 and w = True and later = 10 and cur_next = "''5.3.0''"]
    by simp
qed

text \<open>
  Claim C7. On a trigger with no request in flight that loads a cache record, the latest
  known version is set from the record; and when the time since \<open>lastCheck\<close> is less
  than the interval of 24 hours, nothing else happens but the reading of the cache: no
  request starts.
\<close>

theorem checkForUpdatesAsync_fresh_cache:
  "\<not> versionCheckPromise st \<and> loadCache (cacheFile st) = Some c \<longrightarrow>
     cachedLatestVersion (checkForUpdatesAsync now cur st) = latestVersion c \<and>
     (now - lastCheck c < CHECK_INTERVAL \<longrightarrow>
        checkForUpdatesAsync now cur st
          = st\<lparr>cachedLatestVersion := latestVersion c, trace := trace st @ [ReadCache]\<rparr> \<and>
        count_list (trace (checkForUpdatesAsync now cur st)) Fetch = count_list (trace st) Fetch)"
  by (simp add: checkForUpdatesAsync_def Let_def)

text \<open>The theorem at a record that is one hour old.\<close>

theorem checkForUpdatesAsync_fresh_cache_witness:
  "\<not> versionCheckPromise checker_with_record \<and>
   cachedLatestVersion (checkForUpdatesAsync 1700003600000 ''5.2.1'' checker_with_record)
     = Some ''5.3.0'' \<and>
   trace (checkForUpdatesAsync 1700003600000 ''5.2.1'' checker_with_record) = [ReadCache] \<and>
   running (checkForUpdatesAsync 1700003600000 ''5.2.1'' checker_with_record) = []"
proof -
  let ?c = "\<lparr>lastCheck = 1700000000000, latestVersion = Some ''5.3.0'',
             currentVersion = ''5.2.1''\<rparr>"
  have h1: "\<not> versionCheckPromise checker_with_record"
    by (simp add: checker_with_record_def checker_init_def)
  have h2: "loadCache (cacheFile checker_with_record) = Some ?c"
    by (simp add: checker_with_record_def checker_init_def loadCache_def)
  have h3: "1700003600000 - lastCheck ?c < CHECK_INTERVAL"
    by (simp add: CHECK_INTERVAL_def)
  show ?thesis
    using h1 h2 h3
      checkForUpdatesAsync_fresh_cache [of checker_with_record ?c 1700003600000 "''5.2.1''"]
    by (simp add: checker_with_record_def checker_init_def)
qed

text \<open>
  Claim C8. A cache file that cannot be read or parsed loads as \<^verbatim>\<open>null\<close>, and a
  trigger beside such a file does what it does beside no file. A request that fails (on
  the network, with a response that is not ok, or with a body that is not JSON or holds no
  usable \<^verbatim>\<open>tag_name\<close>) yields \<^verbatim>\<open>null\<close>, and the conclusion of such a request
  leaves the latest known version and the cache file as they were and writes nothing.
\<close>

theorem version_cache_errors_absorbed:
  "loadCache (Unreadable e) = None \<and> loadCache (Malformed e) = None \<and>
   checkForUpdatesAsync now cur (st\<lparr>cacheFile := Unreadable e\<rparr>)
     = (checkForUpdatesAsync now cur (st\<lparr>cacheFile := NoFile\<rparr>))\<lparr>cacheFile := Unreadable e\<rparr> \<and>
   checkForUpdatesAsync now cur (st\<lparr>cacheFile := Malformed e\<rparr>)
     = (checkForUpdatesAsync now cur (st\<lparr>cacheFile := NoFile\<rparr>))\<lparr>cacheFile := Malformed e\<rparr> \<and>
   fetchLatestVersion NetworkError = None \<and>
   fetchLatestVersion (Response False body) = None \<and>
   fetchLatestVersion (Response True NotJson) = None \<and>
   fetchLatestVersion (Response True JsonNull) = None \<and>
   fetchLatestVersion (Response True (JsonValue NoTag)) = None \<and>
   fetchLatestVersion (Response True (JsonValue TagOther)) = None \<and>
   (fetchLatestVersion out = None \<longrightarrow>
      cachedLatestVersion (conclude out t w st) = cachedLatestVersion st \<and>
      cacheFile (conclude out t w st) = cacheFile st \<and>
      trace (conclude out t w st) = trace st)"
  by (simp add: loadCache_def checkForUpdatesAsync_def fetchLatestVersion_def conclude_def
      Let_def split: list.splits)

text \<open>
  The theorem at a request that ends with a response that is not ok, after a trigger
  beside a cache file that does not parse.
\<close>

theorem version_cache_errors_absorbed_witness:
  "checkForUpdatesAsync 0 ''5.3.0'' (checker_init (Malformed (SyntaxError ''Unexpected token'')))
     = checker_in_flight\<lparr>cacheFile := Malformed (SyntaxError ''Unexpected token'')\<rparr> \<and>
   fetchLatestVersion (Response False NotJson) = None \<and>
   cachedLatestVersion (conclude (Response False NotJson) 9 True checker_in_flight) = None \<and>
   cacheFile (conclude (Response False NotJson) 9 True checker_in_flight) = NoFile \<and>
   trace (conclude (Response False NotJson) 9 True checker_in_flight) = [ReadCache, Fetch]"
proof -
  have h: "fetchLatestVersion (Response False NotJson) = None"
    by (simp add: fetchLatestVersion_def)
  have i: "(checker_init NoFile)\<lparr>cacheFile := Malformed (SyntaxError ''Unexpected token'')\<rparr>
      = checker_init (Malformed (SyntaxError ''Unexpected token''))"
    by (simp add: checker_init_def)
  have j: "(checker_init NoFile)\<lparr>cacheFile := NoFile\<rparr> = checker_init NoFile"
    by (simp add: checker_init_def)
  show ?thesis
    using h
      version_cache_errors_absorbed [where st = checker_in_flight
        and out = "Response False NotJson" and t = 9 and w = True]
      version_cache_errors_absorbed [where st = "checker_init NoFile" and now = 0
        and cur = "''5.3.0''" and e = "SyntaxError ''Unexpected token''"]
    unfolding i j
    by (simp add: checker_in_flight_eq checker_in_flight_def [symmetric])
qed

section \<open>Properties of getEpubCheckVersion\<close>

text \<open>
  A settled promise stays as it is; the chunks of standard output are collected; a
  rejection during the events comes from an \<^verbatim>\<open>error\<close> event; no handler spawns a
  process.
\<close>

lemma version_event_settled:
  "vpromise s = Some v \<Longrightarrow> vpromise (handle_version_event trim now s ev) = Some v"
  by (cases ev) (simp_all add: on_version_close_def settle_Some split: option.splits)

lemma foldl_version_settled:
  "vpromise s = Some v \<Longrightarrow> vpromise (foldl (handle_version_event trim now) s evs) = Some v"
  by (induction evs arbitrary: s) (simp_all add: version_event_settled)

lemma foldl_stdout_chunks:
  "foldl (handle_version_event trim now) s (map StdoutData chunks)
     = s\<lparr>stdout := stdout s @ concat chunks\<rparr>"
  by (induction chunks arbitrary: s) simp_all

lemma version_event_rejected:
  "vpromise (handle_version_event trim now s ev) = Some (Rejected e) \<Longrightarrow>
   vpromise s = Some (Rejected e) \<or>
   (\<exists>m. ev = VError m \<and> e = Error (''Failed to get EPUBCheck version: '' @ m))"
  by (cases ev; cases "vpromise s")
     (auto simp: on_version_close_def settle_def split: option.splits)

lemma foldl_version_rejected:
  "vpromise (foldl (handle_version_event trim now) s evs) = Some (Rejected e) \<Longrightarrow>
   vpromise s = Some (Rejected e) \<or>
   (\<exists>m. VError m \<in> set evs \<and> e = Error (''Failed to get EPUBCheck version: '' @ m))"
proof (induction evs arbitrary: s)
  case Nil
  then show ?case by simp
next
  case (Cons ev evs)
  from Cons.prems have
    "vpromise (foldl (handle_version_event trim now) (handle_version_event trim now s ev) evs)
       = Some (Rejected e)" by simp
  from Cons.IH [OF this] show ?case
  proof
    assume "vpromise (handle_version_event trim now s ev) = Some (Rejected e)"
    from version_event_rejected [OF this] show ?thesis by auto
  next
    assume "\<exists>m. VError m \<in> set evs \<and> e = Error (''Failed to get EPUBCheck version: '' @ m)"
    then show ?thesis by auto
  qed
qed

text \<open>With no match, the close handler changes nothing but the promise.\<close>

lemma on_version_close_no_match:
  "version_match (stdout s) = None \<Longrightarrow>
   on_version_close trim now s =
     s\<lparr>vpromise := settle (vpromise s)
         (Resolved (if trim (stdout s) = [] then ''unknown'' else trim (stdout s)))\<rparr>"
  by (simp add: on_version_close_def)

lemma getEpubCheckVersion_no_match:
  assumes m: "\<not> truthy (cachedVersion st)"
    and jar: "getJarPath E = Inr jar"
    and nm: "version_match (concat chunks) = None"
  shows "getEpubCheckVersion trim E now (map StdoutData chunks @ [VClose]) st
           = (Some (Resolved (if trim (concat chunks) = [] then ''unknown''
                              else trim (concat chunks))),
              st\<lparr>spawns := spawns st @ [[''java'', ''-jar'', jar, ''--version'']]\<rparr>)"
  using m jar nm
  by (simp add: getEpubCheckVersion_def foldl_stdout_chunks on_version_close_no_match
      settle_None)


lemma version_event_spawns:
  "spawns (runner (handle_version_event trim now s ev)) = spawns (runner s)"
  by (cases ev) (simp_all add: on_version_close_def split: option.splits)

lemma foldl_version_spawns:
  "spawns (runner (foldl (handle_version_event trim now) s evs)) = spawns (runner s)"
  by (induction evs arbitrary: s) (simp_all add: version_event_spawns)

lemma version_match_nonempty: "version_match s = Some v \<Longrightarrow> v \<noteq> []"
  by (induction s) (auto split: if_splits)

lemma getEpubCheckVersion_memoized:
  "truthy (cachedVersion st) \<Longrightarrow>
   getEpubCheckVersion trim E now evs st = (Some (Resolved (the (cachedVersion st))), st)"
  by (simp add: getEpubCheckVersion_def)

lemma getEpubCheckVersion_match:
  assumes m: "\<not> truthy (cachedVersion st)"
    and jar: "getJarPath E = Inr jar"
    and vm: "version_match (concat chunks) = Some v"
  shows "getEpubCheckVersion trim E now (map StdoutData chunks @ [VClose]) st
           = (Some (Resolved v),
              st\<lparr>cachedVersion := Some v,
                 checker := checkForUpdatesAsync now v (checker st),
                 spawns := spawns st @ [[''java'', ''-jar'', jar, ''--version'']]\<rparr>)"
  using m jar vm
  by (simp add: getEpubCheckVersion_def Let_def foldl_stdout_chunks on_version_close_def
      settle_None)

text \<open>
  Claim C9 as stated fails: with nothing memoized, no override and no jar at any of the
  three locations, the promise is rejected with the error of \<open>getJarPath\<close>, and no
  process is spawned at all.
\<close>

theorem getEpubCheckVersion_no_jar_counterexample:
  "\<not> truthy (cachedVersion (runner_init NoFile)) \<and>
   getEpubCheckVersion ascii_trim env_no_jar 0 [] (runner_init NoFile)
     = (Some (Rejected (Error (not_found_message
          [''/bin/epubcheck.jar'', ''/app/bin/epubcheck.jar'', ''/srv/bin/epubcheck.jar'']))),
        runner_init NoFile) \<and>
   spawns (runner_init NoFile) = []"
  by (simp add: getEpubCheckVersion_def getJarPath_def possiblePaths_def env_no_jar_def
      env_override_missing_def runner_init_def)

text \<open>
  Claim C9, amended. With a version memoized, \<open>getEpubCheckVersion\<close> resolves with it
  and changes nothing: no process is spawned; and a call that parses a version memoizes
  it, so that the next call is of that kind. Otherwise, when \<open>getJarPath\<close> fails the
  promise is rejected with its error and nothing is spawned; when it returns a jar, one
  process is spawned with \<^verbatim>\<open>--version\<close>, and if that process closes with output that
  the pattern does not match, the promise resolves with the trimmed output, or with
  \<^verbatim>\<open>unknown\<close> when that is empty. The promise is rejected only with the error of
  \<open>getJarPath\<close> or on an \<^verbatim>\<open>error\<close> event of the process.
\<close>

theorem getEpubCheckVersion_memo_spawn_fallback:
  "(truthy (cachedVersion st) \<longrightarrow>
      getEpubCheckVersion trim E now evs st = (Some (Resolved (the (cachedVersion st))), st)) \<and>
   (\<not> truthy (cachedVersion st) \<and> getJarPath E = Inr jar \<and>
    version_match (concat chunks) = Some v \<longrightarrow>
      getEpubCheckVersion trim E now (map StdoutData chunks @ [VClose]) st
        = (Some (Resolved v),
           st\<lparr>cachedVersion := Some v,
              checker := checkForUpdatesAsync now v (checker st),
              spawns := spawns st @ [[''java'', ''-jar'', jar, ''--version'']]\<rparr>) \<and>
      getEpubCheckVersion trim E now_b evs_b
          (snd (getEpubCheckVersion trim E now (map StdoutData chunks @ [VClose]) st))
        = (Some (Resolved v),
           snd (getEpubCheckVersion trim E now (map StdoutData chunks @ [VClose]) st))) \<and>
   (\<not> truthy (cachedVersion st) \<and> getJarPath E = Inl e \<longrightarrow>
      getEpubCheckVersion trim E now evs st = (Some (Rejected e), st)) \<and>
   (\<not> truthy (cachedVersion st) \<and> getJarPath E = Inr jar \<longrightarrow>
      spawns (snd (getEpubCheckVersion trim E now evs st))
        = spawns st @ [[''java'', ''-jar'', jar, ''--version'']]) \<and>
   (\<not> truthy (cachedVersion st) \<and> getJarPath E = Inr jar \<and>
    version_match (concat chunks) = None \<longrightarrow>
      fst (getEpubCheckVersion trim E now (map StdoutData chunks @ VClose # rest) st)
        = Some (Resolved (if trim (concat chunks) = [] then ''unknown''
                          else trim (concat chunks)))) \<and>
   (fst (getEpubCheckVersion trim E now evs st) = Some (Rejected e) \<longrightarrow>
      getJarPath E = Inl e \<or>
      (\<exists>m. VError m \<in> set evs \<and> e = Error (''Failed to get EPUBCheck version: '' @ m)))"
proof (intro conjI impI)
  assume "truthy (cachedVersion st)"
  then show "getEpubCheckVersion trim E now evs st
      = (Some (Resolved (the (cachedVersion st))), st)"
    by (simp add: getEpubCheckVersion_def)
next
  assume a: "\<not> truthy (cachedVersion st) \<and> getJarPath E = Inr jar \<and>
    version_match (concat chunks) = Some v"
  let ?st' = "st\<lparr>cachedVersion := Some v,
              checker := checkForUpdatesAsync now v (checker st),
              spawns := spawns st @ [[''java'', ''-jar'', jar, ''--version'']]\<rparr>"
  have first: "getEpubCheckVersion trim E now (map StdoutData chunks @ [VClose]) st
      = (Some (Resolved v), ?st')"
    using a by (intro getEpubCheckVersion_match) simp_all
  have "truthy (cachedVersion ?st')"
    using a version_match_nonempty [of "concat chunks" v] by simp
  from getEpubCheckVersion_memoized [OF this, of trim E now_b evs_b]
  have second: "getEpubCheckVersion trim E now_b evs_b ?st' = (Some (Resolved v), ?st')"
    by simp
  show "getEpubCheckVersion trim E now (map StdoutData chunks @ [VClose]) st
        = (Some (Resolved v),
           st\<lparr>cachedVersion := Some v,
              checker := checkForUpdatesAsync now v (checker st),
              spawns := spawns st @ [[''java'', ''-jar'', jar, ''--version'']]\<rparr>)"
    by (rule first)
  show "getEpubCheckVersion trim E now_b evs_b
          (snd (getEpubCheckVersion trim E now (map StdoutData chunks @ [VClose]) st))
        = (Some (Resolved v),
           snd (getEpubCheckVersion trim E now (map StdoutData chunks @ [VClose]) st))"
    unfolding first using second by simp
next
  assume "\<not> truthy (cachedVersion st) \<and> getJarPath E = Inl e"
  then show "getEpubCheckVersion trim E now evs st = (Some (Rejected e), st)"
    by (simp add: getEpubCheckVersion_def)
next
  assume "\<not> truthy (cachedVersion st) \<and> getJarPath E = Inr jar"
  then show "spawns (snd (getEpubCheckVersion trim E now evs st))
        = spawns st @ [[''java'', ''-jar'', jar, ''--version'']]"
    by (simp add: getEpubCheckVersion_def Let_def foldl_version_spawns)
next
  assume a: "\<not> truthy (cachedVersion st) \<and> getJarPath E = Inr jar \<and>
    version_match (concat chunks) = None"
  let ?st1 = "st\<lparr>spawns := spawns st @ [[''java'', ''-jar'', jar, ''--version'']]\<rparr>"
  let ?s0 = "\<lparr>stdout = [], vpromise = None, runner = ?st1\<rparr>"
  let ?r = "Resolved (if trim (concat chunks) = [] then ''unknown'' else trim (concat chunks))"
  have "vpromise (on_version_close trim now (?s0\<lparr>stdout := concat chunks\<rparr>)) = Some ?r"
    using a by (simp add: on_version_close_no_match settle_None)
  then have "vpromise (foldl (handle_version_event trim now) ?s0
      (map StdoutData chunks @ VClose # rest)) = Some ?r"
    by (simp add: foldl_stdout_chunks foldl_version_settled)
  with a show "fst (getEpubCheckVersion trim E now (map StdoutData chunks @ VClose # rest) st)
      = Some ?r"
    by (simp add: getEpubCheckVersion_def Let_def)
next
  assume r: "fst (getEpubCheckVersion trim E now evs st) = Some (Rejected e)"
  show "getJarPath E = Inl e \<or>
      (\<exists>m. VError m \<in> set evs \<and> e = Error (''Failed to get EPUBCheck version: '' @ m))"
  proof (cases "truthy (cachedVersion st)")
    case True
    with r show ?thesis by (simp add: getEpubCheckVersion_def)
  next
    case False
    show ?thesis
    proof (cases "getJarPath E")
      case (Inl e')
      with False r show ?thesis by (simp add: getEpubCheckVersion_def)
    next
      case (Inr jar)
      let ?s0 = "\<lparr>stdout = [], vpromise = None,
        runner = st\<lparr>spawns := spawns st @ [[''java'', ''-jar'', jar, ''--version'']]\<rparr>\<rparr>"
      from False Inr r have
        "vpromise (foldl (handle_version_event trim now) ?s0 evs) = Some (Rejected e)"
        by (simp add: getEpubCheckVersion_def Let_def)
      from foldl_version_rejected [OF this] show ?thesis by simp
    qed
  qed
qed

text \<open>
  The theorem at a memoized version with no jar present, at a process whose output holds
  no version, at a process with no output, and at an environment with no jar.
\<close>

theorem getEpubCheckVersion_memo_spawn_fallback_witness:
  "getEpubCheckVersion ascii_trim env_no_jar 0 []
       ((runner_init NoFile)\<lparr>cachedVersion := Some ''5.3.0''\<rparr>)
     = (Some (Resolved ''5.3.0''), (runner_init NoFile)\<lparr>cachedVersion := Some ''5.3.0''\<rparr>) \<and>
   getEpubCheckVersion ascii_trim env_no_jar 0 [] (runner_init NoFile)
     = (Some (Rejected (Error (not_found_message
          [''/bin/epubcheck.jar'', ''/app/bin/epubcheck.jar'', ''/srv/bin/epubcheck.jar'']))),
        runner_init NoFile) \<and>
   fst (getEpubCheckVersion ascii_trim env_second_exists 0
         [StdoutData '' Usage: '', StdoutData ''java -jar epubcheck.jar  '', VClose]
         (runner_init NoFile))
     = Some (Resolved ''Usage: java -jar epubcheck.jar'') \<and>
   fst (getEpubCheckVersion ascii_trim env_second_exists 0 [VClose] (runner_init NoFile))
     = Some (Resolved ''unknown'') \<and>
   fst (getEpubCheckVersion ascii_trim env_second_exists 0 [StdoutData ''EPUBCheck v5.3.0'', VClose]
         (runner_init NoFile))
     = Some (Resolved ''5.3.0'') \<and>
   spawns (snd (getEpubCheckVersion ascii_trim env_second_exists 0 [VClose] (runner_init NoFile)))
     = [[''java'', ''-jar'', ''/app/bin/epubcheck.jar'', ''--version'']]"
proof -
  let ?memo = "(runner_init NoFile)\<lparr>cachedVersion := Some ''5.3.0''\<rparr>"
  have m: "truthy (cachedVersion ?memo)"
    by simp
  have n: "\<not> truthy (cachedVersion (runner_init NoFile))"
    by (simp add: runner_init_def)
  have nojar: "getJarPath env_no_jar = Inl (Error (not_found_message
      [''/bin/epubcheck.jar'', ''/app/bin/epubcheck.jar'', ''/srv/bin/epubcheck.jar'']))"
    by (simp add: getJarPath_def possiblePaths_def env_no_jar_def env_override_missing_def)
  have jar: "getJarPath env_second_exists = Inr ''/app/bin/epubcheck.jar''"
    by (simp add: getJarPath_def possiblePaths_def env_second_exists_def)
  have nm1: "version_match (concat ['' Usage: '', ''java -jar epubcheck.jar  '']) = None"
    by simp
  have nm2: "version_match (concat []) = None"
    by simp
  have t1: "ascii_trim (concat ['' Usage: '', ''java -jar epubcheck.jar  ''])
      = ''Usage: java -jar epubcheck.jar''"
    by (simp add: ascii_trim_def)
  have t2: "ascii_trim (concat []) = []"
    by (simp add: ascii_trim_def)
  have r1: "getEpubCheckVersion ascii_trim env_no_jar 0 [] ?memo
      = (Some (Resolved ''5.3.0''), ?memo)"
    using m getEpubCheckVersion_memo_spawn_fallback [where st = ?memo and trim = ascii_trim
        and E = env_no_jar and now = 0 and evs = "[]"]
    by simp
  have r2: "getEpubCheckVersion ascii_trim env_no_jar 0 [] (runner_init NoFile)
      = (Some (Rejected (Error (not_found_message
          [''/bin/epubcheck.jar'', ''/app/bin/epubcheck.jar'', ''/srv/bin/epubcheck.jar'']))),
        runner_init NoFile)"
    using n nojar getEpubCheckVersion_memo_spawn_fallback [where st = "runner_init NoFile"
        and trim = ascii_trim and E = env_no_jar and now = 0 and evs = "[]"]
    by blast
  have r3: "fst (getEpubCheckVersion ascii_trim env_second_exists 0
         (map StdoutData ['' Usage: '', ''java -jar epubcheck.jar  ''] @ VClose # [])
         (runner_init NoFile))
     = Some (Resolved ''Usage: java -jar epubcheck.jar'')"
    using n jar nm1 getEpubCheckVersion_memo_spawn_fallback [where st = "runner_init NoFile"
        and trim = ascii_trim and E = env_second_exists and now = 0
        and jar = "''/app/bin/epubcheck.jar''"
        and chunks = "['' Usage: '', ''java -jar epubcheck.jar  '']" and rest = "[]"]
    unfolding t1 by simp
  have r4: "fst (getEpubCheckVersion ascii_trim env_second_exists 0
         (map StdoutData [] @ VClose # []) (runner_init NoFile))
     = Some (Resolved ''unknown'')"
    using n jar nm2 getEpubCheckVersion_memo_spawn_fallback [where st = "runner_init NoFile"
        and trim = ascii_trim and E = env_second_exists and now = 0
        and jar = "''/app/bin/epubcheck.jar''" and chunks = "[]" and rest = "[]"]
    unfolding t2 by simp
  have r5: "spawns (snd (getEpubCheckVersion ascii_trim env_second_exists 0 [VClose]
        (runner_init NoFile)))
     = spawns (runner_init NoFile) @ [[''java'', ''-jar'', ''/app/bin/epubcheck.jar'', ''--version'']]"
    using n jar getEpubCheckVersion_memo_spawn_fallback [where st = "runner_init NoFile"
        and trim = ascii_trim and E = env_second_exists and now = 0 and evs = "[VClose]"
        and jar = "''/app/bin/epubcheck.jar''"]
    by blast
  have vm: "version_match (concat [''EPUBCheck v5.3.0'']) = Some ''5.3.0''"
    by (simp add: is_version_char_def is_digit_def)
  have r6: "fst (getEpubCheckVersion ascii_trim env_second_exists 0
         (map StdoutData [''EPUBCheck v5.3.0''] @ [VClose]) (runner_init NoFile))
     = Some (Resolved ''5.3.0'')"
    using n jar vm getEpubCheckVersion_memo_spawn_fallback [where st = "runner_init NoFile"
        and trim = ascii_trim and E = env_second_exists and now = 0
        and jar = "''/app/bin/epubcheck.jar''" and chunks = "[''EPUBCheck v5.3.0'']"
        and v = "''5.3.0''"]
    by simp
  from r1 r2 r3 r4 r5 r6 show ?thesis
    by (simp add: runner_init_def)
qed

text \<open>
  Claim C10. When nothing is memoized, the jar is found and the process closes with
  output that the pattern does not match, \<open>getEpubCheckVersion\<close> resolves with the
  fallback string and changes the module state in nothing but the record of the process
  it spawned: the memoized version stays unset and the update check is not triggered. A
  further call therefore spawns a process again.
\<close>

theorem getEpubCheckVersion_no_match_not_memoized:
  "\<not> truthy (cachedVersion st) \<and> getJarPath E = Inr jar \<and>
   version_match (concat chunks) = None \<longrightarrow>
     getEpubCheckVersion trim E now (map StdoutData chunks @ [VClose]) st
       = (Some (Resolved (if trim (concat chunks) = [] then ''unknown''
                          else trim (concat chunks))),
          st\<lparr>spawns := spawns st @ [[''java'', ''-jar'', jar, ''--version'']]\<rparr>) \<and>
     \<not> truthy (cachedVersion
          (snd (getEpubCheckVersion trim E now (map StdoutData chunks @ [VClose]) st))) \<and>
     checker (snd (getEpubCheckVersion trim E now (map StdoutData chunks @ [VClose]) st))
       = checker st \<and>
     spawns (snd (getEpubCheckVersion trim E now_b evs_b
          (snd (getEpubCheckVersion trim E now (map StdoutData chunks @ [VClose]) st))))
       = spawns st @ [[''java'', ''-jar'', jar, ''--version''],
                      [''java'', ''-jar'', jar, ''--version'']]"
proof (intro impI)
  assume a: "\<not> truthy (cachedVersion st) \<and> getJarPath E = Inr jar \<and>
    version_match (concat chunks) = None"
  let ?st' = "st\<lparr>spawns := spawns st @ [[''java'', ''-jar'', jar, ''--version'']]\<rparr>"
  have first: "getEpubCheckVersion trim E now (map StdoutData chunks @ [VClose]) st
       = (Some (Resolved (if trim (concat chunks) = [] then ''unknown''
                          else trim (concat chunks))), ?st')"
    using a by (intro getEpubCheckVersion_no_match) simp_all
  have second: "spawns (snd (getEpubCheckVersion trim E now_b evs_b ?st'))
      = spawns ?st' @ [[''java'', ''-jar'', jar, ''--version'']]"
    using a by (simp add: getEpubCheckVersion_def Let_def foldl_version_spawns)
  show "getEpubCheckVersion trim E now (map StdoutData chunks @ [VClose]) st
       = (Some (Resolved (if trim (concat chunks) = [] then ''unknown''
                          else trim (concat chunks))),
          st\<lparr>spawns := spawns st @ [[''java'', ''-jar'', jar, ''--version'']]\<rparr>) \<and>
     \<not> truthy (cachedVersion
          (snd (getEpubCheckVersion trim E now (map StdoutData chunks @ [VClose]) st))) \<and>
     checker (snd (getEpubCheckVersion trim E now (map StdoutData chunks @ [VClose]) st))
       = checker st \<and>
     spawns (snd (getEpubCheckVersion trim E now_b evs_b
          (snd (getEpubCheckVersion trim E now (map StdoutData chunks @ [VClose]) st))))
       = spawns st @ [[''java'', ''-jar'', jar, ''--version''],
                      [''java'', ''-jar'', jar, ''--version'']]"
    unfolding first using a second by simp
qed


text \<open>The theorem at a process whose output holds no version, called twice.\<close>

theorem getEpubCheckVersion_no_match_not_memoized_witness:
  "getEpubCheckVersion ascii_trim env_second_exists 0
       [StdoutData ''Usage: java -jar epubcheck.jar'', VClose] (runner_init NoFile)
     = (Some (Resolved ''Usage: java -jar epubcheck.jar''),
        \<lparr>cachedVersion = None, checker = checker_init NoFile,
         spawns = [[''java'', ''-jar'', ''/app/bin/epubcheck.jar'', ''--version'']]\<rparr>) \<and>
   spawns (snd (getEpubCheckVersion ascii_trim env_second_exists 7
       [StdoutData ''Usage: java -jar epubcheck.jar'', VClose]
       (snd (getEpubCheckVersion ascii_trim env_second_exists 0
         [StdoutData ''Usage: java -jar epubcheck.jar'', VClose] (runner_init NoFile)))))
     = [[''java'', ''-jar'', ''/app/bin/epubcheck.jar'', ''--version''],
        [''java'', ''-jar'', ''/app/bin/epubcheck.jar'', ''--version'']]"
proof -
  have n: "\<not> truthy (cachedVersion (runner_init NoFile))"
    by (simp add: runner_init_def)
  have jar: "getJarPath env_second_exists = Inr ''/app/bin/epubcheck.jar''"
    by (simp add: getJarPath_def possiblePaths_def env_second_exists_def)
  have nm: "version_match (concat [''Usage: java -jar epubcheck.jar'']) = None"
    by simp
  have t: "ascii_trim (concat [''Usage: java -jar epubcheck.jar''])
      = ''Usage: java -jar epubcheck.jar''"
    by (simp add: ascii_trim_def)
  note c = getEpubCheckVersion_no_match_not_memoized [where st = "runner_init NoFile"
        and trim = ascii_trim and E = env_second_exists and now = 0
        and jar = "''/app/bin/epubcheck.jar''"
        and chunks = "[''Usage: java -jar epubcheck.jar'']" and now_b = 7
        and evs_b = "[StdoutData ''Usage: java -jar epubcheck.jar'', VClose]"]
  have p1: "getEpubCheckVersion ascii_trim env_second_exists 0
       (map StdoutData [''Usage: java -jar epubcheck.jar''] @ [VClose]) (runner_init NoFile)
     = (Some (Resolved ''Usage: java -jar epubcheck.jar''),
        (runner_init NoFile)\<lparr>spawns := spawns (runner_init NoFile) @
           [[''java'', ''-jar'', ''/app/bin/epubcheck.jar'', ''--version'']]\<rparr>)"
    using c n jar nm unfolding t by simp
  have p4: "spawns (snd (getEpubCheckVersion ascii_trim env_second_exists 7
       [StdoutData ''Usage: java -jar epubcheck.jar'', VClose]
       (snd (getEpubCheckVersion ascii_trim env_second_exists 0
         (map StdoutData [''Usage: java -jar epubcheck.jar''] @ [VClose])
         (runner_init NoFile)))))
     = spawns (runner_init NoFile) @
         [[''java'', ''-jar'', ''/app/bin/epubcheck.jar'', ''--version''],
          [''java'', ''-jar'', ''/app/bin/epubcheck.jar'', ''--version'']]"
    using c n jar nm by blast
  show ?thesis
  proof (intro conjI)
    show "getEpubCheckVersion ascii_trim env_second_exists 0
       [StdoutData ''Usage: java -jar epubcheck.jar'', VClose] (runner_init NoFile)
     = (Some (Resolved ''Usage: java -jar epubcheck.jar''),
        \<lparr>cachedVersion = None, checker = checker_init NoFile,
         spawns = [[''java'', ''-jar'', ''/app/bin/epubcheck.jar'', ''--version'']]\<rparr>)"
      using p1 by (simp add: runner_init_def)
    show "spawns (snd (getEpubCheckVersion ascii_trim env_second_exists 7
       [StdoutData ''Usage: java -jar epubcheck.jar'', VClose]
       (snd (getEpubCheckVersion ascii_trim env_second_exists 0
         [StdoutData ''Usage: java -jar epubcheck.jar'', VClose] (runner_init NoFile)))))
     = [[''java'', ''-jar'', ''/app/bin/epubcheck.jar'', ''--version''],
        [''java'', ''-jar'', ''/app/bin/epubcheck.jar'', ''--version'']]"
      using p4 by (simp add: runner_init_def)
  qed
qed

end
